theory Spec2Isabelle
  imports Main
begin

section \<open>JSON values and documents\<close>

text \<open>
  The services exchange plain JavaScript objects: request parameters, stored user
  documents, decoded token payloads. A value is a JSON value; an object is the list of
  its properties in insertion order. Reading a property that is not there gives
  \<open>undefined\<close>, which is \<open>None\<close> here.
\<close>

datatype jval = JNull | JBool bool | JNum int | JStr string | JObj "(string \<times> jval) list"

type_synonym obj = "(string \<times> jval) list"

text \<open>\<open>o[k]\<close>: the property \<open>k\<close> of the object \<open>o\<close>.\<close>

definition get_prop :: "obj \<Rightarrow> string \<Rightarrow> jval option" where
  "get_prop ob k = map_of ob k"

text \<open>\<open>v.k\<close> on any value: only an object has properties.\<close>

definition get_member :: "jval \<Rightarrow> string \<Rightarrow> jval option" where
  "get_member v k = (case v of JObj ob \<Rightarrow> get_prop ob k | _ \<Rightarrow> None)"

text \<open>JavaScript truthiness, as \<open>if (x)\<close>, \<open>!x\<close> and \<open>x || y\<close> test it.\<close>

fun truthy :: "jval option \<Rightarrow> bool" where
  "truthy None = False"
| "truthy (Some JNull) = False"
| "truthy (Some (JBool b)) = b"
| "truthy (Some (JNum n)) = (n \<noteq> 0)"
| "truthy (Some (JStr s)) = (s \<noteq> [])"
| "truthy (Some (JObj ob)) = True"

text \<open>\<open>o[k] = v\<close>: an existing property keeps its place, a new one goes last.\<close>

fun assign :: "string \<Rightarrow> jval \<Rightarrow> obj \<Rightarrow> obj" where
  "assign k v [] = [(k, v)]"
| "assign k v ((k', v') # ps) = (if k' = k then (k, v) # ps else (k', v') # assign k v ps)"

text \<open>
  \<open>_.pick(o, keys)\<close> of lodash, and \<open>filterFields(doc, fields)\<close> of the database
  mixin for a list of plain field names: a new object holding, in the order of
  \<open>keys\<close>, the properties of \<open>o\<close> that exist.
\<close>

fun pick :: "obj \<Rightarrow> string list \<Rightarrow> obj" where
  "pick ob [] = []"
| "pick ob (k # ks) = (case get_prop ob k of None \<Rightarrow> pick ob ks | Some v \<Rightarrow> (k, v) # pick ob ks)"

text \<open>\<open>s.split(" ")\<close>: the pieces between single spaces; never empty.\<close>

fun split_space :: "string \<Rightarrow> string list" where
  "split_space [] = [[]]"
| "split_space (c # cs) =
     (if c = CHR '' '' then [] # split_space cs
      else (case split_space cs of [] \<Rightarrow> [[c]] | w # ws \<Rightarrow> (c # w) # ws))"

section \<open>Errors\<close>

text \<open>
  A thrown error is a value. \<open>MoleculerClientError code fields\<close> carries the HTTP-like
  code and the \<open>field\<close> entries of its data array (the message texts are not modelled).
  \<open>ValidationError\<close> is what the entity validator rejects with (code 422),
  \<open>UnAuthorizedError\<close> the gateway's error (code 401); \<open>RuntimeError\<close> stands for
  every other exception (a TypeError, a database error, a token error).
\<close>

datatype error =
    MoleculerClientError nat "string list"
  | ValidationError "string list"
  | UnAuthorizedError
  | RuntimeError string

fun err_code :: "error \<Rightarrow> nat" where
  "err_code (MoleculerClientError c fs) = c"
| "err_code (ValidationError fs) = 422"
| "err_code UnAuthorizedError = 401"
| "err_code (RuntimeError m) = 500"

fun cited :: "error \<Rightarrow> string list" where
  "cited (MoleculerClientError c fs) = fs"
| "cited (ValidationError fs) = fs"
| "cited UnAuthorizedError = []"
| "cited (RuntimeError m) = []"

section \<open>The credential store\<close>

text \<open>
  The \<open>users\<close> collection is the list of its documents in insertion order. The adapter
  is used through five calls. A query \<open>{f: v}\<close> selects the first document whose field
  \<open>f\<close> equals \<open>v\<close>; identifiers are compared as values (the hexadecimal string and the
  object identifier it denotes are the same value here).
\<close>

type_synonym store = "obj list"

definition findOne :: "string \<Rightarrow> jval \<Rightarrow> store \<Rightarrow> obj option" where
  "findOne f v st = find (\<lambda>d. get_prop d f = Some v) st"

text \<open>\<open>this.getById(id)\<close>: \<open>adapter.findById(id)\<close>, the query \<open>{_id: id}\<close>.\<close>

definition getById :: "jval \<Rightarrow> store \<Rightarrow> obj option" where
  "getById ident st = findOne ''_id'' ident st"

text \<open>
  \<open>adapter.insert(entity)\<close>: the database gives the entity an \<open>_id\<close> when it has none
  (\<open>fresh\<close> is the identifier it chooses), refuses a duplicate \<open>_id\<close>, and returns the
  stored document.
\<close>

definition insert_doc :: "jval \<Rightarrow> obj \<Rightarrow> store \<Rightarrow> (error + obj) \<times> store" where
  "insert_doc fresh entity st =
     (case get_prop entity ''_id'' of
        None \<Rightarrow>
          if getById fresh st \<noteq> None then (Inl (RuntimeError ''MongoError''), st)
          else (Inr (assign ''_id'' fresh entity), st @ [assign ''_id'' fresh entity])
      | Some i \<Rightarrow>
          if getById i st \<noteq> None then (Inl (RuntimeError ''MongoError''), st)
          else (Inr entity, st @ [entity]))"

text \<open>The update operator \<open>$set\<close>: every property of \<open>fields\<close> is assigned to the document.\<close>

fun set_fields :: "obj \<Rightarrow> obj \<Rightarrow> obj" where
  "set_fields [] doc = doc"
| "set_fields ((k, v) # fs) doc = set_fields fs (assign k v doc)"

fun replace_first :: "(obj \<Rightarrow> bool) \<Rightarrow> obj \<Rightarrow> store \<Rightarrow> store" where
  "replace_first P d' [] = []"
| "replace_first P d' (d # ds) = (if P d then d' # ds else d # replace_first P d' ds)"

fun remove_first :: "(obj \<Rightarrow> bool) \<Rightarrow> store \<Rightarrow> store" where
  "remove_first P [] = []"
| "remove_first P (d # ds) = (if P d then ds else d # remove_first P ds)"

text \<open>
  \<open>adapter.updateById(id, {$set: fields})\<close>: the first document with that \<open>_id\<close> is
  updated and returned as updated; \<open>null\<close> when there is none. The database refuses an
  update that would change \<open>_id\<close>.
\<close>

definition updateById :: "jval \<Rightarrow> obj \<Rightarrow> store \<Rightarrow> (error + obj option) \<times> store" where
  "updateById ident fields st =
     (case getById ident st of
        None \<Rightarrow> (Inr None, st)
      | Some d \<Rightarrow>
          if list_all (\<lambda>(k, v). k \<noteq> ''_id'' \<or> v = ident) fields
          then (Inr (Some (set_fields fields d)),
                replace_first (\<lambda>x. get_prop x ''_id'' = Some ident) (set_fields fields d) st)
          else (Inl (RuntimeError ''MongoError''), st))"

text \<open>\<open>adapter.removeById(id)\<close>: removes the first document with that \<open>_id\<close>.\<close>

definition removeById :: "jval \<Rightarrow> store \<Rightarrow> obj option \<times> store" where
  "removeById ident st =
     (getById ident st, remove_first (\<lambda>x. get_prop x ''_id'' = Some ident) st)"

section \<open>The environment of the user service\<close>

text \<open>
  The libraries the service calls are parameters: the password hasher (\<open>bcryptjs\<close>), the
  token library (\<open>jsonwebtoken\<close> with the configured secret), the entity validator built
  from \<open>settings.entityValidator\<close> (it returns the fields it rejects), the expiry
  timestamp read from the clock (sixty days ahead, in seconds) and the identifier the
  database gives the next inserted document.
\<close>

record env =
  hashSync :: "string \<Rightarrow> string"
  bcrypt_compare :: "string \<Rightarrow> string \<Rightarrow> bool"
  jwt_verify :: "string \<Rightarrow> jval option"
  jwt_sign :: "obj \<Rightarrow> string"
  validateEntity :: "obj \<Rightarrow> string list"
  expiry :: int
  fresh_id :: jval

text \<open>\<open>settings.fields\<close>: the fields \<open>transformDocuments\<close> keeps.\<close>

definition settings_fields :: "string list" where
  "settings_fields =
     [''_id'', ''phoneNumber'', ''password'', ''fullname'', ''birthday'', ''gender'',
      ''inviteCode'', ''city'', ''address'']"

text \<open>
  \<open>this.transformDocuments(ctx, {}, doc)\<close> on one document (or \<open>null\<close>): without
  \<open>params.fields\<close> it filters the document to \<open>settings.fields\<close>.
\<close>

definition transformDocuments :: "obj option \<Rightarrow> obj option" where
  "transformDocuments d = map_option (\<lambda>x. pick x settings_fields) d"

section \<open>The request context\<close>

record meta =
  meta_user :: "obj option"
  meta_token :: "string option"
  meta_userID :: "jval option"

record request =
  authorization :: "string option"
  action_auth :: "string option"

section \<open>Methods of the user service\<close>

text \<open>
  \<open>generateJWT(user)\<close>: signs \<open>{id, phoneNumber, exp}\<close>; a property whose value is
  \<open>undefined\<close> is left out of the payload.
\<close>

definition generateJWT :: "env \<Rightarrow> obj \<Rightarrow> string" where
  "generateJWT E u =
     jwt_sign E
       ((case get_prop u ''_id'' of None \<Rightarrow> [] | Some i \<Rightarrow> [(''id'', i)]) @
        (case get_prop u ''phoneNumber'' of None \<Rightarrow> [] | Some p \<Rightarrow> [(''phoneNumber'', p)]) @
        [(''exp'', JNum (expiry E))])"

text \<open>\<open>token || this.generateJWT(user)\<close>.\<close>

definition token_or_new :: "env \<Rightarrow> string option \<Rightarrow> obj \<Rightarrow> string" where
  "token_or_new E tok u =
     (case tok of
        None \<Rightarrow> generateJWT E u
      | Some t \<Rightarrow> if t \<noteq> [] then t else generateJWT E u)"

text \<open>\<open>transformEntity(user, withToken, token)\<close>.\<close>

definition transformEntity :: "env \<Rightarrow> obj option \<Rightarrow> bool \<Rightarrow> string option \<Rightarrow> obj option" where
  "transformEntity E u withToken tok =
     (case u of
        None \<Rightarrow> None
      | Some d \<Rightarrow>
          if withToken then Some (assign ''token'' (JStr (token_or_new E tok d)) d)
          else Some d)"

section \<open>The gateway: \<open>authorize\<close>\<close>

text \<open>The token read from the \<open>Authorization\<close> header (lines 83 to 88).\<close>

definition header_token :: "string option \<Rightarrow> string option" where
  "header_token h =
     (case h of
        None \<Rightarrow> None
      | Some a \<Rightarrow>
          if a = [] then None
          else (case split_space a of
                  [] \<Rightarrow> None
                | type # rest \<Rightarrow>
                    if type = ''Token'' \<or> type = ''Bearer''
                    then (case rest of [] \<Rightarrow> None | t # ts \<Rightarrow> Some t)
                    else None))"

text \<open>
  The action \<open>users.resolveToken\<close>: \<open>jwt.verify\<close> rejects (an error) or gives the decoded
  payload; with a truthy \<open>decoded.id\<close> the result is \<open>getById(decoded.id)\<close>, otherwise
  \<open>undefined\<close>.
\<close>

definition resolveToken :: "env \<Rightarrow> store \<Rightarrow> string \<Rightarrow> error + obj option" where
  "resolveToken E st tok =
     (case jwt_verify E tok of
        None \<Rightarrow> Inl (RuntimeError ''JsonWebTokenError'')
      | Some decoded \<Rightarrow>
          (case get_member decoded ''id'' of
             None \<Rightarrow> Inr None
           | Some i \<Rightarrow> if truthy (Some i) then Inr (getById i st) else Inr None))"

text \<open>
  The local variable \<open>user\<close> of \<open>authorize\<close> after the \<open>try\<close> block: the resolved user,
  or \<open>undefined\<close> when there is no token, when the call throws (the \<open>catch\<close> is empty) or
  when it returns nothing.
\<close>

definition resolved_user :: "env \<Rightarrow> store \<Rightarrow> request \<Rightarrow> obj option" where
  "resolved_user E st req =
     (case header_token (authorization req) of
        None \<Rightarrow> None
      | Some t \<Rightarrow>
          if t = [] then None
          else (case resolveToken E st t of Inl e \<Rightarrow> None | Inr r \<Rightarrow> r))"

definition principal_fields :: "string list" where
  "principal_fields =
     [''_id'', ''phoneNumber'', ''password'', ''fullname'', ''birthday'', ''gender'',
      ''inviteCode'', ''city'', ''address'']"

text \<open>
  \<open>authorize(ctx, route, req)\<close>: the context's \<open>meta\<close> after the call, or the error
  thrown.
\<close>

definition authorize :: "env \<Rightarrow> store \<Rightarrow> request \<Rightarrow> meta \<Rightarrow> error + meta" where
  "authorize E st req m =
     (let token = header_token (authorization req);
          usr = resolved_user E st req;
          m' = (case (token, usr) of
                  (Some t, Some u) \<Rightarrow>
                    m\<lparr>meta_user := Some (pick u principal_fields),
                      meta_token := Some t,
                      meta_userID := get_prop u ''_id''\<rparr>
                | _ \<Rightarrow> m)
      in if action_auth req = Some ''required'' \<and> usr = None then Inl UnAuthorizedError
         else Inr m')"

text \<open>
  The gateway calls \<open>authorize\<close> before the action; an error thrown there ends the
  request, and the action's handler is not called.
\<close>

definition gateway_call ::
  "env \<Rightarrow> request \<Rightarrow> meta \<Rightarrow> (meta \<Rightarrow> store \<Rightarrow> (error + 'r) \<times> store) \<Rightarrow> store
    \<Rightarrow> (error + 'r) \<times> store" where
  "gateway_call E req m handler st =
     (case authorize E st req m of
        Inl e \<Rightarrow> (Inl e, st)
      | Inr m' \<Rightarrow> handler m' st)"

section \<open>Actions of the user service\<close>

text \<open>
  A handler takes the request context (\<open>meta\<close>), its parameters and the store, and
  returns the value it resolves to, or the error it throws, with the store it leaves.
\<close>

text \<open>\<open>x || null\<close>.\<close>

definition or_null :: "jval option \<Rightarrow> jval" where
  "or_null v = (case v of None \<Rightarrow> JNull | Some x \<Rightarrow> if truthy (Some x) then x else JNull)"

text \<open>
  \<open>create\<close> (\<open>POST /\<close>): the entity is \<open>ctx.params\<close>. \<open>bcryptjs.hashSync\<close> throws on a
  password that is not a string.
\<close>

definition create_handler :: "env \<Rightarrow> meta \<Rightarrow> obj \<Rightarrow> store \<Rightarrow> (error + obj option) \<times> store" where
  "create_handler E m entity st =
     (case validateEntity E entity of
        f # fs \<Rightarrow> (Inl (ValidationError (f # fs)), st)
      | [] \<Rightarrow>
          if truthy (get_prop entity ''phoneNumber'') \<and>
             (case get_prop entity ''phoneNumber'' of
                None \<Rightarrow> False
              | Some v \<Rightarrow> findOne ''phoneNumber'' v st \<noteq> None)
          then (Inl (MoleculerClientError 422 [''phoneNumber'']), st)
          else
            (case get_prop entity ''password'' of
               Some (JStr p) \<Rightarrow>
                 (let e1 = assign ''password'' (JStr (hashSync E p)) entity;
                      e2 = assign ''image'' (or_null (get_prop e1 ''image'')) e1
                  in (case insert_doc (fresh_id E) e2 st of
                        (Inl e, st') \<Rightarrow> (Inl e, st')
                      | (Inr doc, st') \<Rightarrow>
                          (Inr (transformEntity E (Some doc) True (meta_token m)), st')))
             | _ \<Rightarrow> (Inl (RuntimeError ''Illegal arguments''), st)))"

text \<open>
  \<open>login\<close> (\<open>POST /login\<close>). The broker checks the action's \<open>params\<close> schema before the
  handler body runs: \<open>phoneNumber\<close> and \<open>password\<close> are strings (the types here), and a
  password shorter than six characters is refused with a validation error citing
  \<open>password\<close>. \<open>bcryptjs.compare\<close> rejects when the stored password is not a string.
\<close>

definition login_handler ::
  "env \<Rightarrow> meta \<Rightarrow> string \<Rightarrow> string \<Rightarrow> store \<Rightarrow> (error + obj option) \<times> store" where
  "login_handler E m phoneNumber password st =
     (if length password < 6 then (Inl (ValidationError [''password'']), st)
      else
        (case findOne ''phoneNumber'' (JStr phoneNumber) st of
           None \<Rightarrow> (Inl (MoleculerClientError 422 [''phoneNumber'']), st)
         | Some u \<Rightarrow>
             (case get_prop u ''password'' of
                Some (JStr h) \<Rightarrow>
                  if \<not> bcrypt_compare E password h
                  then (Inl (MoleculerClientError 422 [''password'']), st)
                  else (Inr (transformEntity E (transformDocuments (Some u)) True (meta_token m)), st)
              | _ \<Rightarrow> (Inl (RuntimeError ''Illegal arguments''), st))))"

text \<open>
  \<open>ctx.meta.user._id\<close>: reading \<open>_id\<close> of an absent principal throws a TypeError; a
  principal without \<open>_id\<close> gives \<open>undefined\<close>, which selects no document.
\<close>

definition caller_id :: "meta \<Rightarrow> error + jval option" where
  "caller_id m =
     (case meta_user m of
        None \<Rightarrow> Inl (RuntimeError ''TypeError'')
      | Some p \<Rightarrow> Inr (get_prop p ''_id''))"

text \<open>\<open>me\<close> (\<open>GET /me\<close>).\<close>

definition me_handler :: "env \<Rightarrow> meta \<Rightarrow> store \<Rightarrow> (error + obj option) \<times> store" where
  "me_handler E m st =
     (case caller_id m of
        Inl e \<Rightarrow> (Inl e, st)
      | Inr None \<Rightarrow> (Inl (MoleculerClientError 404 []), st)
      | Inr (Some i) \<Rightarrow>
          (case getById i st of
             None \<Rightarrow> (Inl (MoleculerClientError 404 []), st)
           | Some u \<Rightarrow>
               (Inr (transformEntity E (transformDocuments (Some u)) True (meta_token m)), st)))"

text \<open>\<open>update\<close> (\<open>PUT /\<close>): \<open>$set\<close> is \<open>ctx.params\<close> as it came.\<close>

definition update_handler :: "env \<Rightarrow> meta \<Rightarrow> obj \<Rightarrow> store \<Rightarrow> (error + obj option) \<times> store" where
  "update_handler E m entity st =
     (case caller_id m of
        Inl e \<Rightarrow> (Inl e, st)
      | Inr None \<Rightarrow> (Inr None, st)
      | Inr (Some i) \<Rightarrow>
          (case updateById i entity st of
             (Inl e, st') \<Rightarrow> (Inl e, st')
           | (Inr doc, st') \<Rightarrow>
               (Inr (transformEntity E (transformDocuments doc) True (meta_token m)), st')))"

text \<open>
  \<open>delete\<close> (\<open>DELETE /:id\<close>): \<open>const id = ctx.params\<close>, so the identifier given to
  \<open>getById\<close> and \<open>removeById\<close> is the whole parameter object \<open>{id: ...}\<close>.
\<close>

definition delete_handler :: "meta \<Rightarrow> obj \<Rightarrow> store \<Rightarrow> (error + obj option) \<times> store" where
  "delete_handler m params st =
     (let ident = JObj params
      in (case getById ident st of
            None \<Rightarrow> (Inl (MoleculerClientError 404 []), st)
          | Some u \<Rightarrow>
              (case removeById ident st of (res, st') \<Rightarrow> (Inr res, st'))))"

section \<open>Avatar files\<close>

text \<open>
  The upload directory is a map from paths to file contents.
  \<open>fs.createReadStream(p)\<close> throws a TypeError when \<open>p\<close> is not a path; on a path
  with no file the stream it returns fails with \<open>ENOENT\<close> when it opens. Both are the
  error of the result here; otherwise the result is the bytes streamed.
\<close>

type_synonym files = "string \<Rightarrow> string option"

definition createReadStream :: "files \<Rightarrow> jval option \<Rightarrow> error + string" where
  "createReadStream fs p =
     (case p of
        Some (JStr path) \<Rightarrow>
          (case fs path of None \<Rightarrow> Inl (RuntimeError ''ENOENT'') | Some bytes \<Rightarrow> Inr bytes)
      | _ \<Rightarrow> Inl (RuntimeError ''ERR_INVALID_ARG_TYPE''))"

text \<open>
  \<open>getImage\<close> (\<open>GET /avatar\<close>): the response type set in the context and the bytes
  streamed.
\<close>

definition getImage_action :: "meta \<Rightarrow> files \<Rightarrow> store \<Rightarrow> error + string \<times> string" where
  "getImage_action m fs st =
     (case caller_id m of
        Inl e \<Rightarrow> Inl e
      | Inr None \<Rightarrow> Inl (MoleculerClientError 404 [])
      | Inr (Some i) \<Rightarrow>
          (case getById i st of
             None \<Rightarrow> Inl (MoleculerClientError 404 [])
           | Some u \<Rightarrow>
               (case createReadStream fs (get_prop u ''image'') of
                  Inl e \<Rightarrow> Inl e
                | Inr bytes \<Rightarrow> Inr (''image/png'', bytes))))"

text \<open>
  The method \<open>getImage(imagePath)\<close>, which no action calls: it tests that the file
  exists before it opens it. \<open>path.join\<close> throws a TypeError on a path that is not a
  string; on a missing file the method evaluates \<open>new NotFoundError()\<close>, a name the
  module does not declare, which throws a ReferenceError.
\<close>

definition getImage_method :: "files \<Rightarrow> jval option \<Rightarrow> error + string" where
  "getImage_method fs imagePath =
     (case imagePath of
        Some (JStr filePath) \<Rightarrow>
          if fs filePath = None then Inl (RuntimeError ''ReferenceError'')
          else createReadStream fs (Some (JStr filePath))
      | _ \<Rightarrow> Inl (RuntimeError ''ERR_INVALID_ARG_TYPE''))"

text \<open>
  \<open>uploadImage\<close> (\<open>PUT /avatar\<close>). The request body \<open>ctx.params\<close> is a stream: it emits
  chunks, then \<open>end\<close>, or \<open>error\<close>. The handler opens the write stream \<open>f\<close> on
  \<open>filePath\<close>, registers three listeners and pipes the body into \<open>f\<close>.
\<close>

datatype body_event = Data string | End | Error

record upload_state =
  fs_files :: files
  db_users :: store

text \<open>The listener of \<open>close\<close> on \<open>f\<close>: sets the caller's \<open>image\<close> to \<open>filePath\<close>.\<close>

definition on_close :: "meta \<Rightarrow> string \<Rightarrow> upload_state \<Rightarrow> upload_state" where
  "on_close m filePath s =
     (case caller_id m of
        Inr (Some i) \<Rightarrow>
          s\<lparr>db_users := snd (updateById i [(''image'', JStr filePath)] (db_users s))\<rparr>
      | _ \<Rightarrow> s)"

text \<open>The listener of \<open>error\<close> on \<open>f\<close>: \<open>fs.unlinkSync(filePath)\<close>.\<close>

definition on_f_error :: "string \<Rightarrow> upload_state \<Rightarrow> upload_state" where
  "on_f_error filePath s = s\<lparr>fs_files := (fs_files s)(filePath := None)\<rparr>"

text \<open>
  The listener of \<open>error\<close> on the body: \<open>f.destroy(err)\<close>. Destroying a stream with an
  error makes it emit \<open>error\<close> and, when the runtime's write stream emits \<open>close\<close> after
  an error (\<open>emitClose\<close>, the default since Node.js 14), \<open>close\<close>.
\<close>

definition on_body_error :: "bool \<Rightarrow> meta \<Rightarrow> string \<Rightarrow> upload_state \<Rightarrow> upload_state" where
  "on_body_error emitClose m filePath s =
     (let s1 = on_f_error filePath s
      in if emitClose then on_close m filePath s1 else s1)"

text \<open>
  \<open>ctx.params.pipe(f)\<close>: a chunk is appended to the file; \<open>end\<close> ends \<open>f\<close>, which then
  closes; \<open>error\<close> runs the body's error listener. Nothing follows \<open>end\<close> or \<open>error\<close>.
\<close>

fun pipe :: "bool \<Rightarrow> meta \<Rightarrow> string \<Rightarrow> body_event list \<Rightarrow> upload_state \<Rightarrow> upload_state" where
  "pipe emitClose m filePath [] s = s"
| "pipe emitClose m filePath (Data c # es) s =
     pipe emitClose m filePath es
       (s\<lparr>fs_files := (fs_files s)(filePath \<mapsto>
            (case fs_files s filePath of None \<Rightarrow> c | Some old \<Rightarrow> old @ c))\<rparr>)"
| "pipe emitClose m filePath (End # es) s = on_close m filePath s"
| "pipe emitClose m filePath (Error # es) s = on_body_error emitClose m filePath s"

text \<open>\<open>fs.createWriteStream(filePath)\<close> creates the file empty, then the body is piped.\<close>

definition uploadImage_handler ::
  "bool \<Rightarrow> meta \<Rightarrow> string \<Rightarrow> body_event list \<Rightarrow> upload_state \<Rightarrow> upload_state" where
  "uploadImage_handler emitClose m filePath body s =
     pipe emitClose m filePath body (s\<lparr>fs_files := (fs_files s)(filePath \<mapsto> [])\<rparr>)"

section \<open>A concrete environment\<close>

text \<open>
  A small instance of the libraries, used to run the model: the hasher prefixes the
  plaintext, only the token \<open>tok1\<close> verifies (it names the user \<open>u1\<close>), every signed
  token is \<open>new\<close>, and the validator applies the password rule of
  \<open>settings.entityValidator\<close> (a string of at least six characters).
\<close>

definition demo_env :: env where
  "demo_env =
     \<lparr>hashSync = (\<lambda>p. ''#'' @ p),
      bcrypt_compare = (\<lambda>p h. h = ''#'' @ p),
      jwt_verify = (\<lambda>t. if t = ''tok1'' then Some (JObj [(''id'', JStr ''u1'')]) else None),
      jwt_sign = (\<lambda>payload. ''new''),
      validateEntity =
        (\<lambda>e. case get_prop e ''password'' of
               Some (JStr p) \<Rightarrow> if length p < 6 then [''password''] else []
             | _ \<Rightarrow> [''password'']),
      expiry = 60,
      fresh_id = JStr ''u2''\<rparr>"

definition demo_user :: obj where
  "demo_user =
     [(''_id'', JStr ''u1''), (''phoneNumber'', JStr ''0912345678''),
      (''password'', JStr ''#secret''), (''fullname'', JStr ''An''),
      (''city'', JStr ''Hue''), (''image'', JNull)]"

text \<open>
  Three registration requests: a new phone number; the stored one with a short password;
  the stored one with a valid password.
\<close>

definition demo_entity :: obj where
  "demo_entity =
     [(''phoneNumber'', JStr ''0987654321''), (''password'', JStr ''hunter22''),
      (''fullname'', JStr ''Binh''), (''birthday'', JStr ''2000-01-01''),
      (''gender'', JBool True), (''city'', JStr ''Hanoi'')]"

definition demo_entity_short :: obj where
  "demo_entity_short =
     [(''phoneNumber'', JStr ''0912345678''), (''password'', JStr ''abc''),
      (''fullname'', JStr ''Binh''), (''birthday'', JStr ''2000-01-01''),
      (''gender'', JBool True), (''city'', JStr ''Hanoi'')]"

definition demo_entity_dup :: obj where
  "demo_entity_dup =
     [(''phoneNumber'', JStr ''0912345678''), (''password'', JStr ''hunter22''),
      (''fullname'', JStr ''Binh''), (''birthday'', JStr ''2000-01-01''),
      (''gender'', JBool True), (''city'', JStr ''Hanoi'')]"

definition demo_meta :: meta where
  "demo_meta =
     \<lparr>meta_user = Some (pick demo_user principal_fields),
      meta_token = Some ''tok1'',
      meta_userID = Some (JStr ''u1'')\<rparr>"

definition no_meta :: meta where
  "no_meta = \<lparr>meta_user = None, meta_token = None, meta_userID = None\<rparr>"

section \<open>Basic facts\<close>

lemma split_space_nonempty: "split_space s \<noteq> []"
  by (induction s) (auto split: list.splits)

lemma get_prop_assign:
  "get_prop (assign k v ob) k' = (if k' = k then Some v else get_prop ob k')"
  by (induction ob) (auto simp: get_prop_def)

lemma get_prop_pick:
  "get_prop (pick ob ks) k = (if k \<in> set ks then get_prop ob k else None)"
proof (induction ks)
  case Nil
  show ?case by (simp add: get_prop_def)
next
  case (Cons a ks)
  then show ?case
    by (cases "get_prop ob a") (auto simp: get_prop_def)
qed

lemma get_prop_set_fields_other:
  "k \<notin> fst ` set fs \<Longrightarrow> get_prop (set_fields fs d) k = get_prop d k"
  by (induction fs arbitrary: d) (auto simp: get_prop_assign)

lemma findOne_None_iff:
  "findOne f v st = None \<longleftrightarrow> (\<forall>d \<in> set st. get_prop d f \<noteq> Some v)"
  by (auto simp: findOne_def find_None_iff)

lemma findOne_SomeD:
  "findOne f v st = Some d \<Longrightarrow> d \<in> set st \<and> get_prop d f = Some v"
  by (auto simp: findOne_def find_Some_iff)

lemma find_replace_first_same:
  "P d' \<Longrightarrow> find P (replace_first P d' st) = (case find P st of None \<Rightarrow> None | Some x \<Rightarrow> Some d')"
  by (induction st) auto

lemma find_replace_first_other:
  "\<not> Q d' \<Longrightarrow> (\<And>x. P x \<Longrightarrow> \<not> Q x) \<Longrightarrow> find Q (replace_first P d' st) = find Q st"
  by (induction st) auto

lemma token_or_new_cases:
  "token_or_new E None u = generateJWT E u"
  "t \<noteq> [] \<Longrightarrow> token_or_new E (Some t) u = t"
  by (simp_all add: token_or_new_def)

section \<open>Authentication resolves to nothing\<close>

lemma header_token_absent: "header_token None = None"
  by (simp add: header_token_def)

lemma header_token_scheme:
  "hd (split_space a) \<noteq> ''Token'' \<Longrightarrow> hd (split_space a) \<noteq> ''Bearer'' \<Longrightarrow> header_token (Some a) = None"
  by (cases "split_space a") (auto simp: header_token_def)

lemma header_token_single:
  "length (split_space a) < 2 \<Longrightarrow> header_token (Some a) = None"
  by (cases "split_space a") (auto simp: header_token_def split: list.splits)

lemma resolved_user_no_token:
  "header_token (authorization req) = None \<Longrightarrow> resolved_user E st req = None"
  by (simp add: resolved_user_def)

lemma resolved_user_unknown_id:
  "header_token (authorization req) = Some t \<Longrightarrow> jwt_verify E t = Some decoded \<Longrightarrow>
   get_member decoded ''id'' = Some i \<Longrightarrow> getById i st = None \<Longrightarrow>
   resolved_user E st req = None"
  by (simp add: resolved_user_def resolveToken_def)

lemma authorize_nothing:
  "resolved_user E st req = None \<Longrightarrow>
   authorize E st req m = (if action_auth req = Some ''required'' then Inl UnAuthorizedError else Inr m)"
  by (simp add: authorize_def Let_def split: option.splits)

text \<open>
  Claim C7. \<open>authorize\<close> resolves no user, attaches nothing to the context and, on a
  \<open>required\<close> action, throws \<open>UnAuthorizedError\<close>, in each of these cases: the
  \<open>Authorization\<close> header is absent; its first space-separated piece is neither
  \<open>Token\<close> nor \<open>Bearer\<close> (compared as strings, so case-sensitively); no second piece
  follows the scheme; the token verifies but the decoded identifier selects no stored
  user.
\<close>

theorem authenticate_nothing:
  assumes "authorization req = None
     \<or> (\<exists>a. authorization req = Some a \<and> hd (split_space a) \<noteq> ''Token'' \<and> hd (split_space a) \<noteq> ''Bearer'')
     \<or> (\<exists>a. authorization req = Some a \<and> length (split_space a) < 2)
     \<or> (\<exists>t decoded i. header_token (authorization req) = Some t \<and> jwt_verify E t = Some decoded
           \<and> get_member decoded ''id'' = Some i \<and> getById i st = None)"
  shows "resolved_user E st req = None \<and>
         authorize E st req m =
           (if action_auth req = Some ''required'' then Inl UnAuthorizedError else Inr m)"
proof -
  have "resolved_user E st req = None"
    using assms
    by (auto simp: header_token_absent header_token_scheme header_token_single
        intro: resolved_user_no_token resolved_user_unknown_id)
  then show ?thesis
    by (simp add: authorize_nothing)
qed


theorem authenticate_nothing_witness:
  "authorize demo_env [demo_user] \<lparr>authorization = None, action_auth = Some ''required''\<rparr> no_meta
     = Inl UnAuthorizedError
   \<and> authorize demo_env [demo_user] \<lparr>authorization = Some ''Basic xyz'', action_auth = None\<rparr> no_meta
     = Inr no_meta
   \<and> authorize demo_env [demo_user] \<lparr>authorization = Some ''Bearer'', action_auth = Some ''required''\<rparr> no_meta
     = Inl UnAuthorizedError
   \<and> jwt_verify demo_env ''tok1'' = Some (JObj [(''id'', JStr ''u1'')])
   \<and> authorize demo_env [] \<lparr>authorization = Some ''Bearer tok1'', action_auth = Some ''required''\<rparr> no_meta
     = Inl UnAuthorizedError"
proof -
  let ?r1 = "\<lparr>authorization = None, action_auth = Some ''required''\<rparr>"
  let ?r2 = "\<lparr>authorization = Some ''Basic xyz'', action_auth = None\<rparr>"
  let ?r3 = "\<lparr>authorization = Some ''Bearer'', action_auth = Some ''required''\<rparr>"
  let ?r4 = "\<lparr>authorization = Some ''Bearer tok1'', action_auth = Some ''required''\<rparr>"
  have a: "authorize demo_env [demo_user] ?r1 no_meta = Inl UnAuthorizedError"
    using authenticate_nothing [of ?r1 demo_env "[demo_user]" no_meta] by simp
  have b: "authorize demo_env [demo_user] ?r2 no_meta = Inr no_meta"
    using authenticate_nothing [of ?r2 demo_env "[demo_user]" no_meta] by simp
  have c: "authorize demo_env [demo_user] ?r3 no_meta = Inl UnAuthorizedError"
    using authenticate_nothing [of ?r3 demo_env "[demo_user]" no_meta] by simp
  have v: "jwt_verify demo_env ''tok1'' = Some (JObj [(''id'', JStr ''u1'')])"
    by (simp add: demo_env_def)
  have t: "header_token (Some ''Bearer tok1'') = Some ''tok1''"
    by (simp add: header_token_def)
  have d: "authorize demo_env [] ?r4 no_meta = Inl UnAuthorizedError"
    using authenticate_nothing [of ?r4 demo_env "[]" no_meta] v t
    by (simp add: get_member_def get_prop_def getById_def findOne_def)
  show ?thesis using a b c v d by simp
qed

section \<open>The authorization gate\<close>

lemma authorize_only_unauthorized:
  "authorize E st req m = Inl e \<Longrightarrow> e = UnAuthorizedError"
  by (simp add: authorize_def Let_def split: if_splits)

lemma authorize_resolved:
  "resolved_user E st req = Some u \<Longrightarrow>
   \<exists>t. authorize E st req m =
     Inr (m\<lparr>meta_user := Some (pick u principal_fields), meta_token := Some t,
            meta_userID := get_prop u ''_id''\<rparr>)"
  by (auto simp: authorize_def Let_def resolved_user_def split: option.splits)

text \<open>
  Claim C6. On an action whose \<open>auth\<close> is \<open>required\<close>, \<open>authorize\<close> throws
  \<open>UnAuthorizedError\<close> exactly when no user was resolved; then the gateway returns
  that error, the handler is not called and the store is as it was. When a user was
  resolved, the handler runs on the context carrying the principal. A token that fails
  verification resolves no user, and \<open>authorize\<close> throws no other error than
  \<open>UnAuthorizedError\<close>.
\<close>

theorem gate_required:
  assumes "action_auth req = Some ''required''"
  shows "(authorize E st req m = Inl UnAuthorizedError) = (resolved_user E st req = None)
     \<and> (resolved_user E st req = None \<longrightarrow>
          gateway_call E req m handler st = (Inl UnAuthorizedError, st))
     \<and> (\<forall>u. resolved_user E st req = Some u \<longrightarrow>
          (\<exists>m'. authorize E st req m = Inr m' \<and> meta_user m' = Some (pick u principal_fields)
             \<and> gateway_call E req m handler st = handler m' st))
     \<and> (\<forall>t. header_token (authorization req) = Some t \<and> jwt_verify E t = None \<longrightarrow>
          resolved_user E st req = None)
     \<and> (\<forall>e. authorize E st req m = Inl e \<longrightarrow> e = UnAuthorizedError)"
proof (intro conjI allI impI)
  show "(authorize E st req m = Inl UnAuthorizedError) = (resolved_user E st req = None)"
    using assms by (simp add: authorize_def Let_def)
next
  assume "resolved_user E st req = None"
  then show "gateway_call E req m handler st = (Inl UnAuthorizedError, st)"
    using assms by (simp add: gateway_call_def authorize_nothing)
next
  fix u assume "resolved_user E st req = Some u"
  from authorize_resolved [OF this, of m]
  show "\<exists>m'. authorize E st req m = Inr m' \<and> meta_user m' = Some (pick u principal_fields)
             \<and> gateway_call E req m handler st = handler m' st"
    by (auto simp: gateway_call_def)
next
  fix t assume "header_token (authorization req) = Some t \<and> jwt_verify E t = None"
  then show "resolved_user E st req = None"
    by (simp add: resolved_user_def resolveToken_def)
next
  fix e assume "authorize E st req m = Inl e"
  then show "e = UnAuthorizedError" by (rule authorize_only_unauthorized)
qed



theorem gate_required_witness:
  "action_auth \<lparr>authorization = Some ''Bearer bad'', action_auth = Some ''required''\<rparr>
     = Some ''required''
   \<and> jwt_verify demo_env ''bad'' = None
   \<and> authorize demo_env [demo_user]
        \<lparr>authorization = Some ''Bearer bad'', action_auth = Some ''required''\<rparr> demo_meta
      = Inl UnAuthorizedError
   \<and> gateway_call demo_env
        \<lparr>authorization = Some ''Bearer bad'', action_auth = Some ''required''\<rparr> demo_meta
        (\<lambda>m st. update_handler demo_env m [(''city'', JStr ''Hanoi'')] st) [demo_user]
      = (Inl UnAuthorizedError, [demo_user])
   \<and> authorize demo_env [demo_user]
        \<lparr>authorization = Some ''Bearer tok1'', action_auth = Some ''required''\<rparr> no_meta
      \<noteq> Inl UnAuthorizedError
   \<and> (case authorize demo_env [demo_user]
          \<lparr>authorization = Some ''Bearer tok1'', action_auth = Some ''required''\<rparr> no_meta of
        Inr m' \<Rightarrow>
          gateway_call demo_env
            \<lparr>authorization = Some ''Bearer tok1'', action_auth = Some ''required''\<rparr> no_meta
            (\<lambda>m st. update_handler demo_env m [(''city'', JStr ''Hanoi'')] st) [demo_user]
          = update_handler demo_env m' [(''city'', JStr ''Hanoi'')] [demo_user]
      | Inl e \<Rightarrow> False)"
proof -
  let ?r = "\<lparr>authorization = Some ''Bearer bad'', action_auth = Some ''required''\<rparr>"
  let ?ok = "\<lparr>authorization = Some ''Bearer tok1'', action_auth = Some ''required''\<rparr>"
  let ?h = "\<lambda>m st. update_handler demo_env m [(''city'', JStr ''Hanoi'')] st"
  have req: "action_auth ?r = Some ''required''" by simp
  have req': "action_auth ?ok = Some ''required''" by simp
  have tok: "header_token (authorization ?r) = Some ''bad''"
    by (simp add: header_token_def)
  have bad: "jwt_verify demo_env ''bad'' = None"
    by (simp add: demo_env_def)
  note g = gate_required [OF req, of demo_env "[demo_user]" demo_meta ?h]
  from g tok bad have none: "resolved_user demo_env [demo_user] ?r = None"
    by blast
  from g none have a: "authorize demo_env [demo_user] ?r demo_meta = Inl UnAuthorizedError
     \<and> gateway_call demo_env ?r demo_meta ?h [demo_user] = (Inl UnAuthorizedError, [demo_user])"
    by simp
  note g' = gate_required [OF req', of demo_env "[demo_user]" no_meta ?h]
  have u: "resolved_user demo_env [demo_user] ?ok = Some demo_user"
    by (simp add: resolved_user_def header_token_def resolveToken_def demo_env_def
        get_member_def get_prop_def getById_def findOne_def demo_user_def)
  from g' u have b: "authorize demo_env [demo_user] ?ok no_meta \<noteq> Inl UnAuthorizedError"
    by simp
  from conjunct1 [OF conjunct2 [OF conjunct2 [OF g']], THEN spec, of demo_user] u
  obtain m' where "authorize demo_env [demo_user] ?ok no_meta = Inr m'"
    "gateway_call demo_env ?ok no_meta ?h [demo_user] = ?h m' [demo_user]"
    by blast
  then have c: "case authorize demo_env [demo_user] ?ok no_meta of
        Inr m' \<Rightarrow> gateway_call demo_env ?ok no_meta ?h [demo_user]
          = update_handler demo_env m' [(''city'', JStr ''Hanoi'')] [demo_user]
      | Inl e \<Rightarrow> False"
    by simp
  show ?thesis using req bad a b c by simp
qed

section \<open>Login\<close>

lemma token_or_new_empty: "token_or_new E (Some []) u = generateJWT E u"
  by (simp add: token_or_new_def)

lemma generateJWT_pick:
  "generateJWT E (pick u settings_fields) =
     jwt_sign E
       ((case get_prop u ''_id'' of None \<Rightarrow> [] | Some i \<Rightarrow> [(''id'', i)]) @
        (case get_prop u ''phoneNumber'' of None \<Rightarrow> [] | Some p \<Rightarrow> [(''phoneNumber'', p)]) @
        [(''exp'', JNum (expiry E))])"
  unfolding generateJWT_def get_prop_pick by (simp add: settings_fields_def)

text \<open>
  Claim C9, as the code has it. A \<open>login\<close> request whose password has fewer than six
  characters is refused by the action's parameter schema with a validation error (code
  422) citing \<open>password\<close>, whatever the phone number. For a password of six characters
  or more: when no stored user has the given phone number it throws a client error with
  code 422 citing \<open>phoneNumber\<close>; when the password does not verify against the stored
  hash it throws one with code 422 citing \<open>password\<close>; otherwise it returns the user's
  profile (exactly the fields of \<open>settings.fields\<close>) with a \<open>token\<close>: the token of the
  request context when there is one, otherwise a newly signed one over the user's
  identifier, phone number and the expiry. The store is never changed.
\<close>

theorem login_outcomes:
  "(length pw < 6 \<longrightarrow> login_handler E m ph pw st = (Inl (ValidationError [''password'']), st))
   \<and> (6 \<le> length pw \<and> (\<forall>d \<in> set st. get_prop d ''phoneNumber'' \<noteq> Some (JStr ph)) \<longrightarrow>
      login_handler E m ph pw st = (Inl (MoleculerClientError 422 [''phoneNumber'']), st))
   \<and> (\<forall>u h. 6 \<le> length pw \<and> findOne ''phoneNumber'' (JStr ph) st = Some u
         \<and> get_prop u ''password'' = Some (JStr h) \<and> \<not> bcrypt_compare E pw h \<longrightarrow>
      login_handler E m ph pw st = (Inl (MoleculerClientError 422 [''password'']), st))
   \<and> (\<forall>u h. 6 \<le> length pw \<and> findOne ''phoneNumber'' (JStr ph) st = Some u
         \<and> get_prop u ''password'' = Some (JStr h) \<and> bcrypt_compare E pw h \<longrightarrow>
      (\<exists>resp. login_handler E m ph pw st = (Inr (Some resp), st)
         \<and> (\<forall>k. k \<noteq> ''token'' \<longrightarrow>
               get_prop resp k = (if k \<in> set settings_fields then get_prop u k else None))
         \<and> (\<forall>t. meta_token m = Some t \<and> t \<noteq> [] \<longrightarrow> get_prop resp ''token'' = Some (JStr t))
         \<and> (meta_token m = None \<or> meta_token m = Some [] \<longrightarrow>
              get_prop resp ''token'' =
                Some (JStr (jwt_sign E
                  ((case get_prop u ''_id'' of None \<Rightarrow> [] | Some i \<Rightarrow> [(''id'', i)]) @
                   (case get_prop u ''phoneNumber'' of None \<Rightarrow> []
                    | Some p \<Rightarrow> [(''phoneNumber'', p)]) @
                   [(''exp'', JNum (expiry E))]))))))"
proof (intro conjI allI impI)
  assume "length pw < 6"
  then show "login_handler E m ph pw st = (Inl (ValidationError [''password'']), st)"
    by (simp add: login_handler_def)
next
  assume a: "6 \<le> length pw \<and> (\<forall>d \<in> set st. get_prop d ''phoneNumber'' \<noteq> Some (JStr ph))"
  then have "findOne ''phoneNumber'' (JStr ph) st = None"
    by (simp add: findOne_None_iff)
  with a show "login_handler E m ph pw st = (Inl (MoleculerClientError 422 [''phoneNumber'']), st)"
    by (simp add: login_handler_def)
next
  fix u h
  assume "6 \<le> length pw \<and> findOne ''phoneNumber'' (JStr ph) st = Some u
      \<and> get_prop u ''password'' = Some (JStr h) \<and> \<not> bcrypt_compare E pw h"
  then show "login_handler E m ph pw st = (Inl (MoleculerClientError 422 [''password'']), st)"
    by (simp add: login_handler_def)
next
  fix u h
  assume a: "6 \<le> length pw \<and> findOne ''phoneNumber'' (JStr ph) st = Some u
      \<and> get_prop u ''password'' = Some (JStr h) \<and> bcrypt_compare E pw h"
  let ?doc = "pick u settings_fields"
  let ?resp = "assign ''token'' (JStr (token_or_new E (meta_token m) ?doc)) ?doc"
  let ?new = "jwt_sign E
                  ((case get_prop u ''_id'' of None \<Rightarrow> [] | Some i \<Rightarrow> [(''id'', i)]) @
                   (case get_prop u ''phoneNumber'' of None \<Rightarrow> []
                    | Some p \<Rightarrow> [(''phoneNumber'', p)]) @
                   [(''exp'', JNum (expiry E))])"
  have r: "login_handler E m ph pw st = (Inr (Some ?resp), st)"
    using a by (simp add: login_handler_def transformDocuments_def transformEntity_def)
  have f: "\<forall>k. k \<noteq> ''token'' \<longrightarrow>
      get_prop ?resp k = (if k \<in> set settings_fields then get_prop u k else None)"
    by (simp add: get_prop_assign get_prop_pick)
  have t1: "\<forall>t. meta_token m = Some t \<and> t \<noteq> [] \<longrightarrow> get_prop ?resp ''token'' = Some (JStr t)"
    by (simp add: get_prop_assign token_or_new_cases)
  have t2: "meta_token m = None \<or> meta_token m = Some [] \<longrightarrow>
      get_prop ?resp ''token'' = Some (JStr ?new)"
    using generateJWT_pick [of E u]
    by (auto simp: get_prop_assign token_or_new_cases token_or_new_empty)
  show "\<exists>resp. login_handler E m ph pw st = (Inr (Some resp), st)
         \<and> (\<forall>k. k \<noteq> ''token'' \<longrightarrow>
               get_prop resp k = (if k \<in> set settings_fields then get_prop u k else None))
         \<and> (\<forall>t. meta_token m = Some t \<and> t \<noteq> [] \<longrightarrow> get_prop resp ''token'' = Some (JStr t))
         \<and> (meta_token m = None \<or> meta_token m = Some [] \<longrightarrow>
              get_prop resp ''token'' =
                Some (JStr (jwt_sign E
                  ((case get_prop u ''_id'' of None \<Rightarrow> [] | Some i \<Rightarrow> [(''id'', i)]) @
                   (case get_prop u ''phoneNumber'' of None \<Rightarrow> []
                    | Some p \<Rightarrow> [(''phoneNumber'', p)]) @
                   [(''exp'', JNum (expiry E))]))))"
    by (rule exI [of _ ?resp]) (intro conjI r f t1 t2)
qed

theorem login_outcomes_witness:
  "login_handler demo_env no_meta ''0912345678'' ''abc'' [demo_user]
     = (Inl (ValidationError [''password'']), [demo_user])
   \<and> login_handler demo_env no_meta ''0900000000'' ''secret'' [demo_user]
     = (Inl (MoleculerClientError 422 [''phoneNumber'']), [demo_user])
   \<and> login_handler demo_env no_meta ''0912345678'' ''wrong1'' [demo_user]
     = (Inl (MoleculerClientError 422 [''password'']), [demo_user])
   \<and> (case fst (login_handler demo_env demo_meta ''0912345678'' ''secret'' [demo_user]) of
         Inr (Some resp) \<Rightarrow> get_prop resp ''token'' = Some (JStr ''tok1'')
           \<and> get_prop resp ''phoneNumber'' = Some (JStr ''0912345678'')
           \<and> get_prop resp ''image'' = None
       | _ \<Rightarrow> False)
   \<and> (case fst (login_handler demo_env no_meta ''0912345678'' ''secret'' [demo_user]) of
         Inr (Some resp) \<Rightarrow> get_prop resp ''token'' = Some (JStr ''new'')
       | _ \<Rightarrow> False)"
proof -
  have found: "findOne ''phoneNumber'' (JStr ''0912345678'') [demo_user] = Some demo_user"
    by (simp add: findOne_def demo_user_def get_prop_def)
  have hash: "get_prop demo_user ''password'' = Some (JStr ''#secret'')"
    by (simp add: demo_user_def get_prop_def)
  have phone: "get_prop demo_user ''phoneNumber'' = Some (JStr ''0912345678'')"
    by (simp add: demo_user_def get_prop_def)
  have absent: "\<forall>d \<in> set [demo_user]. get_prop d ''phoneNumber'' \<noteq> Some (JStr ''0900000000'')"
    by (simp add: demo_user_def get_prop_def)
  have bad: "\<not> bcrypt_compare demo_env ''wrong1'' ''#secret''"
    by (simp add: demo_env_def)
  have good: "bcrypt_compare demo_env ''secret'' ''#secret''"
    by (simp add: demo_env_def)
  have new: "\<And>payload. jwt_sign demo_env payload = ''new''"
    by (simp add: demo_env_def)
  have short: "length ''abc'' < 6" and long: "6 \<le> length ''secret''" "6 \<le> length ''wrong1''"
    by simp_all
  have fields: "''phoneNumber'' \<in> set settings_fields" "''image'' \<notin> set settings_fields"
    by (simp_all add: settings_fields_def)
  have z: "login_handler demo_env no_meta ''0912345678'' ''abc'' [demo_user]
     = (Inl (ValidationError [''password'']), [demo_user])"
    using login_outcomes [where st = "[demo_user]" and ph = "''0912345678''" and E = demo_env
        and m = no_meta and pw = "''abc''"] short
    by blast
  have a: "login_handler demo_env no_meta ''0900000000'' ''secret'' [demo_user]
     = (Inl (MoleculerClientError 422 [''phoneNumber'']), [demo_user])"
    using login_outcomes [where st = "[demo_user]" and ph = "''0900000000''" and E = demo_env
        and m = no_meta and pw = "''secret''"] absent long(1)
    by blast
  have b: "login_handler demo_env no_meta ''0912345678'' ''wrong1'' [demo_user]
     = (Inl (MoleculerClientError 422 [''password'']), [demo_user])"
    using login_outcomes [where st = "[demo_user]" and ph = "''0912345678''" and E = demo_env
        and m = no_meta and pw = "''wrong1''"] found hash bad long(2)
    by blast
  have c: "case fst (login_handler demo_env demo_meta ''0912345678'' ''secret'' [demo_user]) of
         Inr (Some resp) \<Rightarrow> get_prop resp ''token'' = Some (JStr ''tok1'')
           \<and> get_prop resp ''phoneNumber'' = Some (JStr ''0912345678'')
           \<and> get_prop resp ''image'' = None
       | _ \<Rightarrow> False"
    using login_outcomes [where st = "[demo_user]" and ph = "''0912345678''" and E = demo_env
        and m = demo_meta and pw = "''secret''"] found hash good long(1) phone fields
    by (auto simp: demo_meta_def)
  have d: "case fst (login_handler demo_env no_meta ''0912345678'' ''secret'' [demo_user]) of
         Inr (Some resp) \<Rightarrow> get_prop resp ''token'' = Some (JStr ''new'')
       | _ \<Rightarrow> False"
    using login_outcomes [where st = "[demo_user]" and ph = "''0912345678''" and E = demo_env
        and m = no_meta and pw = "''secret''"] found hash good long(1) new
    by (auto simp: no_meta_def)
  show ?thesis using z a b c d by simp
qed

text \<open>
  As first stated the claim fails on a short password: no stored user has the phone
  number \<open>0900000000\<close>, yet the request with the password \<open>abc\<close> is refused citing
  \<open>password\<close>, not \<open>phoneNumber\<close>.
\<close>

theorem login_short_password_counterexample:
  "findOne ''phoneNumber'' (JStr ''0900000000'') [demo_user] = None
   \<and> login_handler demo_env no_meta ''0900000000'' ''abc'' [demo_user]
     = (Inl (ValidationError [''password'']), [demo_user])
   \<and> cited (ValidationError [''password'']) = [''password'']"
  by (simp add: login_handler_def findOne_def demo_user_def get_prop_def)

section \<open>Updating the caller's record\<close>

lemma get_prop_set_fields_in:
  "distinct (map fst fs) \<Longrightarrow> (k, v) \<in> set fs \<Longrightarrow> get_prop (set_fields fs d) k = Some v"
proof (induction fs arbitrary: d)
  case Nil
  then show ?case by simp
next
  case (Cons p fs)
  obtain k' v' where p: "p = (k', v')" by (cases p)
  show ?case
  proof (cases "(k, v) = (k', v')")
    case True
    with Cons.prems p have "k \<notin> fst ` set fs" by auto
    with True p show ?thesis
      by (simp add: get_prop_set_fields_other get_prop_assign)
  next
    case False
    with Cons p show ?thesis by auto
  qed
qed

lemma get_prop_set_fields_id:
  "list_all (\<lambda>(k, v). k \<noteq> a \<or> v = i) fs \<Longrightarrow> get_prop d a = Some i \<Longrightarrow>
   get_prop (set_fields fs d) a = Some i"
  by (induction fs arbitrary: d) (auto simp: get_prop_assign)

lemma getById_SomeD: "getById i st = Some d \<Longrightarrow> d \<in> set st \<and> get_prop d ''_id'' = Some i"
  by (simp add: getById_def findOne_SomeD)

lemma updateById_cases:
  "updateById i fs st = (r, st') \<Longrightarrow>
   st' = st \<or>
   (\<exists>d. getById i st = Some d \<and> get_prop (set_fields fs d) ''_id'' = Some i
      \<and> r = Inr (Some (set_fields fs d))
      \<and> st' = replace_first (\<lambda>x. get_prop x ''_id'' = Some i) (set_fields fs d) st)"
  by (auto simp: updateById_def get_prop_set_fields_id dest: getById_SomeD
      split: option.splits if_splits)

lemma getById_replace_same:
  "getById i st = Some d \<Longrightarrow> get_prop d' ''_id'' = Some i \<Longrightarrow>
   getById i (replace_first (\<lambda>x. get_prop x ''_id'' = Some i) d' st) = Some d'"
  by (simp add: getById_def findOne_def find_replace_first_same)

lemma getById_replace_other:
  "j \<noteq> i \<Longrightarrow> get_prop d' ''_id'' = Some i \<Longrightarrow>
   getById j (replace_first (\<lambda>x. get_prop x ''_id'' = Some i) d' st) = getById j st"
  unfolding getById_def findOne_def
  by (rule find_replace_first_other) auto

lemma length_replace_first: "length (replace_first P d' st) = length st"
  by (induction st) auto

lemma update_handler_store:
  "caller_id m = Inr (Some i) \<Longrightarrow>
   snd (update_handler E m entity st) = snd (updateById i entity st)"
  by (simp add: update_handler_def split: prod.splits sum.splits)

text \<open>
  Claim C10. \<open>update\<close> leaves every field of the caller's record that the request does
  not supply as it was (an absent field stays absent), leaves every other record as it
  was and keeps the number of records; a supplied field takes the supplied value.
\<close>

theorem update_partial:
  assumes "caller_id m = Inr (Some i)"
  shows "(\<forall>k. k \<notin> fst ` set entity \<longrightarrow>
            map_option (\<lambda>d. get_prop d k) (getById i (snd (update_handler E m entity st)))
            = map_option (\<lambda>d. get_prop d k) (getById i st))
       \<and> (\<forall>j. j \<noteq> i \<longrightarrow> getById j (snd (update_handler E m entity st)) = getById j st)
       \<and> length (snd (update_handler E m entity st)) = length st
       \<and> (\<forall>d k v. getById i st = Some d \<and> distinct (map fst entity) \<and> (k, v) \<in> set entity
             \<and> ''_id'' \<notin> fst ` set entity \<longrightarrow>
            map_option (\<lambda>d. get_prop d k) (getById i (snd (update_handler E m entity st)))
            = Some (Some v))"
proof -
  obtain r st' where u: "updateById i entity st = (r, st')"
    by (cases "updateById i entity st")
  have s: "snd (update_handler E m entity st) = st'"
    using assms u by (simp add: update_handler_store)
  from updateById_cases [OF u]
  have frame: "(\<forall>k. k \<notin> fst ` set entity \<longrightarrow>
            map_option (\<lambda>d. get_prop d k) (getById i st') = map_option (\<lambda>d. get_prop d k) (getById i st))
       \<and> (\<forall>j. j \<noteq> i \<longrightarrow> getById j st' = getById j st) \<and> length st' = length st"
    by (auto simp: getById_replace_same getById_replace_other length_replace_first
        get_prop_set_fields_other)
  have written: "\<forall>d k v. getById i st = Some d \<and> distinct (map fst entity) \<and> (k, v) \<in> set entity
             \<and> ''_id'' \<notin> fst ` set entity \<longrightarrow>
            map_option (\<lambda>d. get_prop d k) (getById i st') = Some (Some v)"
  proof (intro allI impI)
    fix d k v
    assume a: "getById i st = Some d \<and> distinct (map fst entity) \<and> (k, v) \<in> set entity
             \<and> ''_id'' \<notin> fst ` set entity"
    then have all: "list_all (\<lambda>(k, v). k \<noteq> ''_id'' \<or> v = i) entity"
      by (force simp: list_all_iff)
    have id: "get_prop (set_fields entity d) ''_id'' = Some i"
      using a getById_SomeD [of i st d] by (simp add: get_prop_set_fields_other)
    have "st' = replace_first (\<lambda>x. get_prop x ''_id'' = Some i) (set_fields entity d) st"
      using u a all by (simp add: updateById_def)
    then show "map_option (\<lambda>d. get_prop d k) (getById i st') = Some (Some v)"
      using a id by (simp add: getById_replace_same get_prop_set_fields_in)
  qed
  show ?thesis using s frame written by simp
qed


theorem update_partial_witness:
  "caller_id demo_meta = Inr (Some (JStr ''u1''))
   \<and> map_option (\<lambda>d. get_prop d ''city'')
        (getById (JStr ''u1'')
           (snd (update_handler demo_env demo_meta [(''fullname'', JStr ''Binh'')] [demo_user])))
      = Some (Some (JStr ''Hue''))
   \<and> map_option (\<lambda>d. get_prop d ''address'')
        (getById (JStr ''u1'')
           (snd (update_handler demo_env demo_meta [(''fullname'', JStr ''Binh'')] [demo_user])))
      = Some None
   \<and> map_option (\<lambda>d. get_prop d ''fullname'')
        (getById (JStr ''u1'')
           (snd (update_handler demo_env demo_meta [(''fullname'', JStr ''Binh'')] [demo_user])))
      = Some (Some (JStr ''Binh''))"
proof -
  let ?e = "[(''fullname'', JStr ''Binh'')]"
  have cid: "caller_id demo_meta = Inr (Some (JStr ''u1''))"
    by (simp add: caller_id_def demo_meta_def demo_user_def principal_fields_def get_prop_def)
  have old: "getById (JStr ''u1'') [demo_user] = Some demo_user"
    by (simp add: getById_def findOne_def demo_user_def get_prop_def)
  have city: "get_prop demo_user ''city'' = Some (JStr ''Hue'')"
    and address: "get_prop demo_user ''address'' = None"
    by (simp_all add: demo_user_def get_prop_def)
  have absent: "''city'' \<notin> fst ` set ?e" "''address'' \<notin> fst ` set ?e" "''_id'' \<notin> fst ` set ?e"
    by simp_all
  have given: "distinct (map fst ?e)" "(''fullname'', JStr ''Binh'') \<in> set ?e"
    by simp_all
  note u = update_partial [OF cid, of ?e demo_env "[demo_user]"]
  from conjunct1 [OF u, THEN spec, of "''city''"] absent(1) old city have a: "map_option (\<lambda>d. get_prop d ''city'')
        (getById (JStr ''u1'') (snd (update_handler demo_env demo_meta ?e [demo_user])))
      = Some (Some (JStr ''Hue''))"
    by simp
  from conjunct1 [OF u, THEN spec, of "''address''"] absent(2) old address have b: "map_option (\<lambda>d. get_prop d ''address'')
        (getById (JStr ''u1'') (snd (update_handler demo_env demo_meta ?e [demo_user])))
      = Some None"
    by simp
  from u old given absent(3) have c: "map_option (\<lambda>d. get_prop d ''fullname'')
        (getById (JStr ''u1'') (snd (update_handler demo_env demo_meta ?e [demo_user])))
      = Some (Some (JStr ''Binh''))"
    by blast
  show ?thesis using cid a b c by simp
qed


section \<open>Registration\<close>

lemma insert_doc_Inr:
  "insert_doc fresh e st = (Inr doc, st') \<Longrightarrow>
   st' = st @ [doc] \<and> (\<forall>k. k \<noteq> ''_id'' \<longrightarrow> get_prop doc k = get_prop e k)"
  by (auto simp: insert_doc_def Let_def get_prop_assign split: option.splits if_splits)

lemma create_handler_Inr:
  assumes "create_handler E m entity st = (Inr r, st')"
  shows "\<exists>p doc. get_prop entity ''password'' = Some (JStr p)
     \<and> insert_doc (fresh_id E)
          (assign ''image'' (or_null (get_prop (assign ''password'' (JStr (hashSync E p)) entity) ''image''))
             (assign ''password'' (JStr (hashSync E p)) entity)) st = (Inr doc, st')
     \<and> r = transformEntity E (Some doc) True (meta_token m)"
proof -
  from assms have v: "validateEntity E entity = []"
    by (simp add: create_handler_def split: list.splits)
  from assms v obtain p where p: "get_prop entity ''password'' = Some (JStr p)"
    by (auto simp: create_handler_def split: if_splits option.splits jval.splits)
  let ?e2 = "assign ''image'' (or_null (get_prop (assign ''password'' (JStr (hashSync E p)) entity) ''image''))
             (assign ''password'' (JStr (hashSync E p)) entity)"
  obtain x s where i: "insert_doc (fresh_id E) ?e2 st = (x, s)"
    by (cases "insert_doc (fresh_id E) ?e2 st")
  from assms v p i show ?thesis
    by (cases x) (auto simp: create_handler_def Let_def split: if_splits)
qed


lemma transformEntity_token:
  "transformEntity E (Some doc) True tok = Some resp \<Longrightarrow>
   (\<forall>k. k \<noteq> ''token'' \<longrightarrow> get_prop resp k = get_prop doc k)
   \<and> (\<forall>t. tok = Some t \<and> t \<noteq> [] \<longrightarrow> get_prop resp ''token'' = Some (JStr t))
   \<and> (tok = None \<longrightarrow> get_prop resp ''token'' = Some (JStr (generateJWT E doc)))"
  by (auto simp: transformEntity_def get_prop_assign token_or_new_cases)

lemma transformEntity_Some:
  "\<exists>resp. transformEntity E (Some doc) True tok = Some resp"
  by (simp add: transformEntity_def)

text \<open>
  Claim C8, as the code has it. \<open>create\<close> validates the entity first: an entity the
  validator rejects fails with a validation error (code 422) citing the rejected fields.
  An entity that passes, with a truthy phone number that a stored user already has,
  fails with a client error of code 422 citing \<open>phoneNumber\<close>. In both cases nothing is
  inserted. When \<open>create\<close> succeeds, exactly one record is appended; its password is
  the hasher's digest of the supplied plaintext and its other supplied fields are the
  entity's; the response is that record with a \<open>token\<close>: the token of the request
  context when there is one, a newly signed one otherwise.
\<close>

theorem create_outcomes:
  "(validateEntity E entity = [] \<and> truthy (get_prop entity ''phoneNumber'')
      \<and> (\<exists>d \<in> set st. get_prop d ''phoneNumber'' = get_prop entity ''phoneNumber'') \<longrightarrow>
      create_handler E m entity st = (Inl (MoleculerClientError 422 [''phoneNumber'']), st))
   \<and> (validateEntity E entity \<noteq> [] \<longrightarrow>
      create_handler E m entity st = (Inl (ValidationError (validateEntity E entity)), st))
   \<and> (\<forall>r st'. create_handler E m entity st = (Inr r, st') \<longrightarrow>
      (\<exists>p doc resp. get_prop entity ''password'' = Some (JStr p)
         \<and> st' = st @ [doc]
         \<and> get_prop doc ''password'' = Some (JStr (hashSync E p))
         \<and> (\<forall>k. k \<notin> {''password'', ''image'', ''_id''} \<longrightarrow> get_prop doc k = get_prop entity k)
         \<and> r = Some resp
         \<and> (\<forall>k. k \<noteq> ''token'' \<longrightarrow> get_prop resp k = get_prop doc k)
         \<and> (\<forall>t. meta_token m = Some t \<and> t \<noteq> [] \<longrightarrow> get_prop resp ''token'' = Some (JStr t))
         \<and> (meta_token m = None \<longrightarrow> get_prop resp ''token'' = Some (JStr (generateJWT E doc)))))"
proof (intro conjI allI impI)
  assume a: "validateEntity E entity = [] \<and> truthy (get_prop entity ''phoneNumber'')
      \<and> (\<exists>d \<in> set st. get_prop d ''phoneNumber'' = get_prop entity ''phoneNumber'')"
  then obtain v where v: "get_prop entity ''phoneNumber'' = Some v"
    by (cases "get_prop entity ''phoneNumber''") auto
  with a have "findOne ''phoneNumber'' v st \<noteq> None"
    by (auto simp: findOne_None_iff)
  with a v show "create_handler E m entity st = (Inl (MoleculerClientError 422 [''phoneNumber'']), st)"
    by (simp add: create_handler_def)
next
  assume "validateEntity E entity \<noteq> []"
  then show "create_handler E m entity st = (Inl (ValidationError (validateEntity E entity)), st)"
    by (cases "validateEntity E entity") (simp_all add: create_handler_def)
next
  fix r st'
  assume "create_handler E m entity st = (Inr r, st')"
  from create_handler_Inr [OF this] obtain p doc where
    p: "get_prop entity ''password'' = Some (JStr p)" and
    i: "insert_doc (fresh_id E)
          (assign ''image'' (or_null (get_prop (assign ''password'' (JStr (hashSync E p)) entity) ''image''))
             (assign ''password'' (JStr (hashSync E p)) entity)) st = (Inr doc, st')" and
    r: "r = transformEntity E (Some doc) True (meta_token m)"
    by blast
  obtain resp where resp: "transformEntity E (Some doc) True (meta_token m) = Some resp"
    using transformEntity_Some by blast
  note d = insert_doc_Inr [OF i]
  have st: "st' = st @ [doc]" using d by simp
  have pw: "get_prop doc ''password'' = Some (JStr (hashSync E p))"
    using d by (simp add: get_prop_assign)
  have rest: "\<forall>k. k \<notin> {''password'', ''image'', ''_id''} \<longrightarrow> get_prop doc k = get_prop entity k"
    using d by (simp add: get_prop_assign)
  note t = transformEntity_token [OF resp]
  show "\<exists>p doc resp. get_prop entity ''password'' = Some (JStr p)
         \<and> st' = st @ [doc]
         \<and> get_prop doc ''password'' = Some (JStr (hashSync E p))
         \<and> (\<forall>k. k \<notin> {''password'', ''image'', ''_id''} \<longrightarrow> get_prop doc k = get_prop entity k)
         \<and> r = Some resp
         \<and> (\<forall>k. k \<noteq> ''token'' \<longrightarrow> get_prop resp k = get_prop doc k)
         \<and> (\<forall>t. meta_token m = Some t \<and> t \<noteq> [] \<longrightarrow> get_prop resp ''token'' = Some (JStr t))
         \<and> (meta_token m = None \<longrightarrow> get_prop resp ''token'' = Some (JStr (generateJWT E doc)))"
    apply (rule exI [of _ p], rule exI [of _ doc], rule exI [of _ resp])
    using p st pw rest r resp t by simp
qed

theorem create_outcomes_witness:
  "create_handler demo_env no_meta demo_entity_dup [demo_user]
     = (Inl (MoleculerClientError 422 [''phoneNumber'']), [demo_user])
   \<and> create_handler demo_env no_meta demo_entity_short [demo_user]
     = (Inl (ValidationError [''password'']), [demo_user])
   \<and> (case create_handler demo_env no_meta demo_entity [demo_user] of
         (Inr (Some resp), st') \<Rightarrow>
           get_prop resp ''token'' = Some (JStr ''new'')
           \<and> map_option (\<lambda>d. get_prop d ''password'') (getById (JStr ''u2'') st')
               = Some (Some (JStr ''#hunter22''))
       | _ \<Rightarrow> False)"
proof -
  have valid: "validateEntity demo_env demo_entity_dup = []"
    by (simp add: demo_env_def demo_entity_dup_def get_prop_def)
  have phone: "truthy (get_prop demo_entity_dup ''phoneNumber'')"
    by (simp add: demo_entity_dup_def get_prop_def)
  have dup: "\<exists>d \<in> set [demo_user]. get_prop d ''phoneNumber'' = get_prop demo_entity_dup ''phoneNumber''"
    by (simp add: demo_entity_dup_def demo_user_def get_prop_def)
  have a: "create_handler demo_env no_meta demo_entity_dup [demo_user]
     = (Inl (MoleculerClientError 422 [''phoneNumber'']), [demo_user])"
    using create_outcomes [of demo_env demo_entity_dup "[demo_user]" no_meta] valid phone dup
    by blast
  have short: "validateEntity demo_env demo_entity_short = [''password'']"
    by (simp add: demo_env_def demo_entity_short_def get_prop_def)
  have b: "create_handler demo_env no_meta demo_entity_short [demo_user]
     = (Inl (ValidationError [''password'']), [demo_user])"
    using create_outcomes [of demo_env demo_entity_short "[demo_user]" no_meta] short
    by simp
  obtain r st' where ev: "create_handler demo_env no_meta demo_entity [demo_user] = (Inr r, st')"
    by (simp add: create_handler_def demo_env_def demo_entity_def demo_user_def get_prop_def
        findOne_def getById_def insert_doc_def or_null_def Let_def)
  have pw: "get_prop demo_entity ''password'' = Some (JStr ''hunter22'')"
    by (simp add: demo_entity_def get_prop_def)
  have noid: "get_prop demo_user ''_id'' \<noteq> Some (JStr ''u2'')"
    by (simp add: demo_user_def get_prop_def)
  have new: "\<And>doc. generateJWT demo_env doc = ''new''"
    by (simp add: generateJWT_def demo_env_def)
  have hash: "hashSync demo_env ''hunter22'' = ''#hunter22''"
    by (simp add: demo_env_def)
  from create_outcomes [of demo_env demo_entity "[demo_user]" no_meta] ev
  obtain doc resp where
    st': "st' = [demo_user] @ [doc]" and
    dpw: "get_prop doc ''password'' = Some (JStr ''#hunter22'')" and
    r: "r = Some resp" and
    tok: "get_prop resp ''token'' = Some (JStr ''new'')"
    using pw new hash by (auto simp: no_meta_def)
  have id: "get_prop doc ''_id'' = Some (JStr ''u2'')"
    using ev st'
    by (auto simp: create_handler_def demo_env_def demo_entity_def demo_user_def get_prop_def
        findOne_def getById_def insert_doc_def or_null_def Let_def)
  have c: "case create_handler demo_env no_meta demo_entity [demo_user] of
         (Inr (Some resp), st') \<Rightarrow>
           get_prop resp ''token'' = Some (JStr ''new'')
           \<and> map_option (\<lambda>d. get_prop d ''password'') (getById (JStr ''u2'') st')
               = Some (Some (JStr ''#hunter22''))
       | _ \<Rightarrow> False"
    using ev st' dpw r tok id noid by (simp add: getById_def findOne_def)
  show ?thesis using a b c by simp
qed


text \<open>
  As first stated the claim fails twice. A request with the stored phone number and a
  three-character password is rejected by the validator, and the error cites
  \<open>password\<close>, not \<open>phoneNumber\<close>. A registration sent with the valid token \<open>tok1\<close> of
  user \<open>u1\<close> answers with that token, not with a newly signed one for the new user.
\<close>

theorem create_fresh_token_counterexample:
  "get_prop demo_user ''phoneNumber'' = get_prop demo_entity_short ''phoneNumber''
   \<and> create_handler demo_env no_meta demo_entity_short [demo_user]
       = (Inl (ValidationError [''password'']), [demo_user])
   \<and> fst (create_handler demo_env demo_meta demo_entity [demo_user])
       = Inr (Some [(''phoneNumber'', JStr ''0987654321''), (''password'', JStr ''#hunter22''),
                    (''fullname'', JStr ''Binh''), (''birthday'', JStr ''2000-01-01''),
                    (''gender'', JBool True), (''city'', JStr ''Hanoi''), (''image'', JNull),
                    (''_id'', JStr ''u2''), (''token'', JStr ''tok1'')])
   \<and> meta_token demo_meta = Some ''tok1''
   \<and> jwt_verify demo_env ''tok1'' = Some (JObj [(''id'', JStr ''u1'')])
   \<and> generateJWT demo_env
        [(''phoneNumber'', JStr ''0987654321''), (''password'', JStr ''#hunter22''),
         (''fullname'', JStr ''Binh''), (''birthday'', JStr ''2000-01-01''),
         (''gender'', JBool True), (''city'', JStr ''Hanoi''), (''image'', JNull),
         (''_id'', JStr ''u2'')] = ''new''"
  by (simp add: create_handler_def demo_env_def demo_meta_def no_meta_def demo_user_def
      demo_entity_def demo_entity_short_def get_prop_def findOne_def getById_def insert_doc_def
      or_null_def transformEntity_def token_or_new_def generateJWT_def Let_def)


section \<open>What the outputs carry\<close>

lemma login_handler_Inr:
  "login_handler E m ph pw st = (Inr r, st') \<Longrightarrow>
   \<exists>u. findOne ''phoneNumber'' (JStr ph) st = Some u
     \<and> r = transformEntity E (Some (pick u settings_fields)) True (meta_token m)"
  by (auto simp: login_handler_def transformDocuments_def
      split: option.splits jval.splits if_splits)

lemma me_handler_Inr:
  "me_handler E m st = (Inr r, st') \<Longrightarrow>
   \<exists>i u. caller_id m = Inr (Some i) \<and> getById i st = Some u
     \<and> r = transformEntity E (Some (pick u settings_fields)) True (meta_token m)"
  by (auto simp: me_handler_def transformDocuments_def split: option.splits sum.splits)

text \<open>
  Claim C1, as the code has it. The principal that \<open>authorize\<close> attaches to the context
  is the resolved user restricted to the nine fields listed there; the profile returned
  by \<open>login\<close> and \<open>me\<close> is the stored user restricted to \<open>settings.fields\<close>, plus
  \<open>token\<close>; \<open>create\<close> returns the stored record plus \<open>token\<close>. Both lists contain
  \<open>password\<close>, the stored hash, and neither contains \<open>image\<close>.
\<close>

theorem outputs_carry_password:
  "(\<forall>u. resolved_user E st req = Some u \<longrightarrow>
      (\<exists>m' p. authorize E st req m = Inr m' \<and> meta_user m' = Some p
         \<and> (\<forall>k. get_prop p k = (if k \<in> set principal_fields then get_prop u k else None))))
   \<and> (\<forall>resp st'. login_handler E m ph pw st = (Inr (Some resp), st') \<longrightarrow>
      (\<exists>u. findOne ''phoneNumber'' (JStr ph) st = Some u
         \<and> (\<forall>k. k \<noteq> ''token'' \<longrightarrow>
               get_prop resp k = (if k \<in> set settings_fields then get_prop u k else None))))
   \<and> (\<forall>resp st'. me_handler E m st = (Inr (Some resp), st') \<longrightarrow>
      (\<exists>i u. caller_id m = Inr (Some i) \<and> getById i st = Some u
         \<and> (\<forall>k. k \<noteq> ''token'' \<longrightarrow>
               get_prop resp k = (if k \<in> set settings_fields then get_prop u k else None))))
   \<and> (\<forall>resp st'. create_handler E m entity st = (Inr (Some resp), st') \<longrightarrow>
      (\<exists>doc. st' = st @ [doc] \<and> (\<forall>k. k \<noteq> ''token'' \<longrightarrow> get_prop resp k = get_prop doc k)))
   \<and> ''password'' \<in> set principal_fields \<and> ''password'' \<in> set settings_fields
   \<and> ''image'' \<notin> set principal_fields \<and> ''image'' \<notin> set settings_fields"
proof (intro conjI allI impI)
  fix u assume "resolved_user E st req = Some u"
  from authorize_resolved [OF this, of m]
  show "\<exists>m' p. authorize E st req m = Inr m' \<and> meta_user m' = Some p
         \<and> (\<forall>k. get_prop p k = (if k \<in> set principal_fields then get_prop u k else None))"
    by (auto simp: get_prop_pick)
next
  fix resp st'
  assume "login_handler E m ph pw st = (Inr (Some resp), st')"
  from login_handler_Inr [OF this] obtain u where
    u: "findOne ''phoneNumber'' (JStr ph) st = Some u" and
    r: "transformEntity E (Some (pick u settings_fields)) True (meta_token m) = Some resp"
    by auto
  from transformEntity_token [OF r] u
  show "\<exists>u. findOne ''phoneNumber'' (JStr ph) st = Some u
         \<and> (\<forall>k. k \<noteq> ''token'' \<longrightarrow>
               get_prop resp k = (if k \<in> set settings_fields then get_prop u k else None))"
    by (simp add: get_prop_pick)
next
  fix resp st'
  assume "me_handler E m st = (Inr (Some resp), st')"
  from me_handler_Inr [OF this] obtain i u where
    u: "caller_id m = Inr (Some i)" "getById i st = Some u" and
    r: "transformEntity E (Some (pick u settings_fields)) True (meta_token m) = Some resp"
    by auto
  from transformEntity_token [OF r] u
  show "\<exists>i u. caller_id m = Inr (Some i) \<and> getById i st = Some u
         \<and> (\<forall>k. k \<noteq> ''token'' \<longrightarrow>
               get_prop resp k = (if k \<in> set settings_fields then get_prop u k else None))"
    by (simp add: get_prop_pick)
next
  fix resp st'
  assume "create_handler E m entity st = (Inr (Some resp), st')"
  from create_handler_Inr [OF this] obtain p doc where
    i: "insert_doc (fresh_id E)
          (assign ''image'' (or_null (get_prop (assign ''password'' (JStr (hashSync E p)) entity) ''image''))
             (assign ''password'' (JStr (hashSync E p)) entity)) st = (Inr doc, st')" and
    r: "transformEntity E (Some doc) True (meta_token m) = Some resp"
    by auto
  from insert_doc_Inr [OF i] transformEntity_token [OF r]
  show "\<exists>doc. st' = st @ [doc] \<and> (\<forall>k. k \<noteq> ''token'' \<longrightarrow> get_prop resp k = get_prop doc k)"
    by blast
qed (simp_all add: principal_fields_def settings_fields_def)

theorem outputs_carry_password_witness:
  "(case authorize demo_env [demo_user]
           \<lparr>authorization = Some ''Bearer tok1'', action_auth = Some ''required''\<rparr> no_meta of
      Inr m' \<Rightarrow> map_option (\<lambda>p. get_prop p ''password'') (meta_user m')
                 = Some (Some (JStr ''#secret''))
    | Inl e \<Rightarrow> False)
   \<and> (case login_handler demo_env no_meta ''0912345678'' ''secret'' [demo_user] of
        (Inr (Some resp), st') \<Rightarrow> get_prop resp ''password'' = Some (JStr ''#secret'')
                                      \<and> get_prop resp ''image'' = None
      | _ \<Rightarrow> False)
   \<and> (case me_handler demo_env demo_meta [demo_user] of
        (Inr (Some resp), st') \<Rightarrow> get_prop resp ''password'' = Some (JStr ''#secret'')
                                      \<and> get_prop resp ''image'' = None
      | _ \<Rightarrow> False)
   \<and> (case create_handler demo_env no_meta demo_entity [demo_user] of
        (Inr (Some resp), st') \<Rightarrow> length st' = 2
                                      \<and> get_prop resp ''password'' = get_prop (last st') ''password''
      | _ \<Rightarrow> False)"
proof -
  let ?r = "\<lparr>authorization = Some ''Bearer tok1'', action_auth = Some ''required''\<rparr>"
  note t = outputs_carry_password [of demo_env "[demo_user]" ?r no_meta "''0912345678''" "''secret''"
      demo_entity]
  note t' = outputs_carry_password [of demo_env "[demo_user]" ?r demo_meta "''0912345678''" "''secret''"
      demo_entity]
  have u: "resolved_user demo_env [demo_user] ?r = Some demo_user"
    by (simp add: resolved_user_def header_token_def resolveToken_def demo_env_def
        get_member_def get_prop_def getById_def findOne_def demo_user_def)
  have pw: "get_prop demo_user ''password'' = Some (JStr ''#secret'')"
    by (simp add: demo_user_def get_prop_def)
  have inp: "''password'' \<in> set principal_fields" and ins: "''password'' \<in> set settings_fields"
    and nim: "''image'' \<notin> set settings_fields"
    using t by simp_all
  from conjunct1 [OF t, THEN spec, of demo_user] u obtain m' p where
    m': "authorize demo_env [demo_user] ?r no_meta = Inr m'" "meta_user m' = Some p" and
    p: "\<forall>k. get_prop p k = (if k \<in> set principal_fields then get_prop demo_user k else None)"
    by blast
  from p inp pw have "get_prop p ''password'' = Some (JStr ''#secret'')"
    by simp
  with m' have a: "case authorize demo_env [demo_user] ?r no_meta of
      Inr m' \<Rightarrow> map_option (\<lambda>p. get_prop p ''password'') (meta_user m')
                 = Some (Some (JStr ''#secret''))
    | Inl e \<Rightarrow> False"
    by simp
  have f: "findOne ''phoneNumber'' (JStr ''0912345678'') [demo_user] = Some demo_user"
    by (simp add: findOne_def demo_user_def get_prop_def)
  obtain resp st' where
    ev: "login_handler demo_env no_meta ''0912345678'' ''secret'' [demo_user] = (Inr (Some resp), st')"
    by (simp add: login_handler_def f pw demo_env_def transformDocuments_def transformEntity_def)
  from conjunct1 [OF conjunct2 [OF t], THEN spec, THEN spec, of resp st'] ev f
  have r: "\<forall>k. k \<noteq> ''token'' \<longrightarrow>
      get_prop resp k = (if k \<in> set settings_fields then get_prop demo_user k else None)"
    by simp
  from r ins nim pw have "get_prop resp ''password'' = Some (JStr ''#secret'')
       \<and> get_prop resp ''image'' = None"
    by simp
  with ev have b: "case login_handler demo_env no_meta ''0912345678'' ''secret'' [demo_user] of
        (Inr (Some resp), st') \<Rightarrow> get_prop resp ''password'' = Some (JStr ''#secret'')
                                      \<and> get_prop resp ''image'' = None
      | _ \<Rightarrow> False"
    by simp
  have cid: "caller_id demo_meta = Inr (Some (JStr ''u1''))"
    by (simp add: caller_id_def demo_meta_def demo_user_def principal_fields_def get_prop_def)
  have g: "getById (JStr ''u1'') [demo_user] = Some demo_user"
    by (simp add: getById_def findOne_def demo_user_def get_prop_def)
  obtain resp2 st2 where
    ev2: "me_handler demo_env demo_meta [demo_user] = (Inr (Some resp2), st2)"
    by (simp add: me_handler_def cid g transformDocuments_def transformEntity_def)
  from conjunct1 [OF conjunct2 [OF conjunct2 [OF t']], THEN spec, THEN spec, of resp2 st2] ev2 cid g
  have r2: "\<forall>k. k \<noteq> ''token'' \<longrightarrow>
      get_prop resp2 k = (if k \<in> set settings_fields then get_prop demo_user k else None)"
    by simp
  from r2 ins nim pw have "get_prop resp2 ''password'' = Some (JStr ''#secret'')
       \<and> get_prop resp2 ''image'' = None"
    by simp
  with ev2 have c: "case me_handler demo_env demo_meta [demo_user] of
        (Inr (Some resp), st') \<Rightarrow> get_prop resp ''password'' = Some (JStr ''#secret'')
                                      \<and> get_prop resp ''image'' = None
      | _ \<Rightarrow> False"
    by simp
  obtain resp3 st3 where
    ev3: "create_handler demo_env no_meta demo_entity [demo_user] = (Inr (Some resp3), st3)"
    by (simp add: create_handler_def demo_env_def demo_entity_def demo_user_def get_prop_def
        findOne_def getById_def insert_doc_def or_null_def transformEntity_def Let_def)
  from conjunct1 [OF conjunct2 [OF conjunct2 [OF conjunct2 [OF t]]], THEN spec, THEN spec,
      of resp3 st3] ev3
  obtain doc where "st3 = [demo_user] @ [doc]"
    "\<forall>k. k \<noteq> ''token'' \<longrightarrow> get_prop resp3 k = get_prop doc k"
    by blast
  then have "length st3 = 2 \<and> get_prop resp3 ''password'' = get_prop (last st3) ''password''"
    by simp
  with ev3 have d: "case create_handler demo_env no_meta demo_entity [demo_user] of
        (Inr (Some resp), st') \<Rightarrow> length st' = 2
                                      \<and> get_prop resp ''password'' = get_prop (last st') ''password''
      | _ \<Rightarrow> False"
    by simp
  show ?thesis using a b c d by simp
qed

text \<open>
  The stored hash is in the principal and in the profiles: for the stored user \<open>u1\<close>,
  whose password field holds \<open>#secret\<close>, the principal, the answer of \<open>me\<close> and the
  answer of \<open>login\<close> all carry it.
\<close>

theorem password_excluded_counterexample:
  "get_prop demo_user ''password'' = Some (JStr ''#secret'')
   \<and> authorize demo_env [demo_user]
        \<lparr>authorization = Some ''Bearer tok1'', action_auth = Some ''required''\<rparr> no_meta
      = Inr \<lparr>meta_user = Some [(''_id'', JStr ''u1''), (''phoneNumber'', JStr ''0912345678''),
                                (''password'', JStr ''#secret''), (''fullname'', JStr ''An''),
                                (''city'', JStr ''Hue'')],
             meta_token = Some ''tok1'', meta_userID = Some (JStr ''u1'')\<rparr>
   \<and> fst (me_handler demo_env demo_meta [demo_user])
      = Inr (Some [(''_id'', JStr ''u1''), (''phoneNumber'', JStr ''0912345678''),
                   (''password'', JStr ''#secret''), (''fullname'', JStr ''An''),
                   (''city'', JStr ''Hue''), (''token'', JStr ''tok1'')])
   \<and> fst (login_handler demo_env no_meta ''0912345678'' ''secret'' [demo_user])
      = Inr (Some [(''_id'', JStr ''u1''), (''phoneNumber'', JStr ''0912345678''),
                   (''password'', JStr ''#secret''), (''fullname'', JStr ''An''),
                   (''city'', JStr ''Hue''), (''token'', JStr ''new'')])"
  by (simp add: authorize_def resolved_user_def header_token_def resolveToken_def demo_env_def
      get_member_def get_prop_def getById_def findOne_def demo_user_def demo_meta_def no_meta_def
      principal_fields_def settings_fields_def me_handler_def login_handler_def caller_id_def
      transformDocuments_def transformEntity_def token_or_new_def generateJWT_def Let_def)


section \<open>Where the code departs from the specification\<close>

text \<open>
  Claim C2. \<open>update\<close> passes \<open>ctx.params\<close> to \<open>$set\<close> unchanged, so a supplied
  password is stored as it came: after updating the password to \<open>newsecret\<close> the record
  holds \<open>newsecret\<close>, not the digest the hasher gives, and \<open>login\<close> with the new
  password is refused. (\<open>create\<close> hashes the password before the insert.)
\<close>

theorem update_stores_plaintext:
  "update_handler demo_env demo_meta [(''password'', JStr ''newsecret'')] [demo_user]
     = (Inr (Some [(''_id'', JStr ''u1''), (''phoneNumber'', JStr ''0912345678''),
                   (''password'', JStr ''newsecret''), (''fullname'', JStr ''An''),
                   (''city'', JStr ''Hue''), (''token'', JStr ''tok1'')]),
        [[(''_id'', JStr ''u1''), (''phoneNumber'', JStr ''0912345678''),
          (''password'', JStr ''newsecret''), (''fullname'', JStr ''An''),
          (''city'', JStr ''Hue''), (''image'', JNull)]])
   \<and> hashSync demo_env ''newsecret'' = ''#newsecret''
   \<and> login_handler demo_env no_meta ''0912345678'' ''newsecret''
        [[(''_id'', JStr ''u1''), (''phoneNumber'', JStr ''0912345678''),
          (''password'', JStr ''newsecret''), (''fullname'', JStr ''An''),
          (''city'', JStr ''Hue''), (''image'', JNull)]]
     = (Inl (MoleculerClientError 422 [''password'']),
        [[(''_id'', JStr ''u1''), (''phoneNumber'', JStr ''0912345678''),
          (''password'', JStr ''newsecret''), (''fullname'', JStr ''An''),
          (''city'', JStr ''Hue''), (''image'', JNull)]])"
  by (simp add: update_handler_def caller_id_def updateById_def getById_def findOne_def
      demo_env_def demo_meta_def no_meta_def demo_user_def get_prop_def principal_fields_def
      settings_fields_def transformDocuments_def transformEntity_def token_or_new_def
      login_handler_def)

text \<open>
  Claim C4. \<open>delete\<close> looks the user up by the whole parameter object instead of its
  \<open>id\<close> property: for the stored user \<open>u1\<close> and the request \<open>DELETE /u1\<close> no record
  matches, the handler throws the 404 error and the record stays.
\<close>

theorem delete_existing_not_found:
  "getById (JStr ''u1'') [demo_user] = Some demo_user
   \<and> delete_handler demo_meta [(''id'', JStr ''u1'')] [demo_user]
     = (Inl (MoleculerClientError 404 []), [demo_user])"
  by (simp add: delete_handler_def getById_def findOne_def demo_user_def get_prop_def)

text \<open>
  Claim C5. The \<open>getImage\<close> action opens \<open>user.image\<close> without testing that the file
  exists: for a user without avatar (\<open>image\<close> is \<open>null\<close>) and for a user whose image
  path has no file, the request fails, but not with the 404 error. The method of the
  same name has the test the action lacks, and is not called.
\<close>

theorem getImage_missing_not_404:
  "getById (JStr ''u1'') [demo_user] = Some demo_user
   \<and> get_prop demo_user ''image'' = Some JNull
   \<and> getImage_action demo_meta (\<lambda>p. None) [demo_user] = Inl (RuntimeError ''ERR_INVALID_ARG_TYPE'')
   \<and> getImage_action demo_meta (\<lambda>p. None) [assign ''image'' (JStr ''/uploads/a.png'') demo_user]
     = Inl (RuntimeError ''ENOENT'')
   \<and> err_code (RuntimeError ''ERR_INVALID_ARG_TYPE'') = 500
   \<and> err_code (RuntimeError ''ENOENT'') = 500
   \<and> getImage_method (\<lambda>p. None) (Some (JStr ''/uploads/a.png''))
     = Inl (RuntimeError ''ReferenceError'')"
  by (simp add: getImage_action_def caller_id_def createReadStream_def getById_def findOne_def
      demo_meta_def demo_user_def get_prop_def principal_fields_def getImage_method_def)

text \<open>
  Claim C3. When the body fails after a chunk, the error listener of the write stream
  removes the file. On a runtime whose write stream emits \<open>close\<close> after the error, the
  \<open>close\<close> listener then runs as after a complete upload and sets the caller's \<open>image\<close>
  to the path of the removed file; only when no \<open>close\<close> follows is the record left as
  it was.
\<close>

theorem upload_error_sets_image:
  "get_prop demo_user ''image'' = Some JNull
   \<and> fs_files (uploadImage_handler True demo_meta ''/uploads/a.png'' [Data ''ab'', Error]
        \<lparr>fs_files = (\<lambda>p. None), db_users = [demo_user]\<rparr>) ''/uploads/a.png'' = None
   \<and> db_users (uploadImage_handler True demo_meta ''/uploads/a.png'' [Data ''ab'', Error]
        \<lparr>fs_files = (\<lambda>p. None), db_users = [demo_user]\<rparr>)
     = [[(''_id'', JStr ''u1''), (''phoneNumber'', JStr ''0912345678''),
         (''password'', JStr ''#secret''), (''fullname'', JStr ''An''),
         (''city'', JStr ''Hue''), (''image'', JStr ''/uploads/a.png'')]]
   \<and> db_users (uploadImage_handler False demo_meta ''/uploads/a.png'' [Data ''ab'', Error]
        \<lparr>fs_files = (\<lambda>p. None), db_users = [demo_user]\<rparr>)
     = [demo_user]"
  by (simp add: uploadImage_handler_def on_body_error_def on_f_error_def on_close_def
      caller_id_def updateById_def getById_def findOne_def demo_meta_def demo_user_def
      get_prop_def principal_fields_def Let_def)


end
